theory Spec2Isabelle
  imports Complex_Main
begin

section \<open>Python values and errors\<close>

text \<open>
  The module \<^verbatim>\<open>fipy/ngsi/entity.py\<close> works on JSON-shaped Python data: the records of a
  notification, the value of an attribute, the value arrays of a Quantum Leap query.
  \<open>pyval\<close> is that data. A \<^verbatim>\<open>dict\<close> decoded from JSON has string keys and keeps its
  insertion order, so it is an association list (with distinct keys, where it is
  well formed). Floating-point numbers are carried around by the module and never
  computed with; they are reals here.
\<close>

datatype pyval =
    PNone
  | PBool bool
  | PInt int
  | PFloat real
  | PStr string
  | PList "pyval list"
  | PDict "(string \<times> pyval) list"

text \<open>
  The module has no \<^verbatim>\<open>raise\<close> of its own; every failure is an exception of a function
  it calls: \<^verbatim>\<open>ValueError\<close> from \<^verbatim>\<open>datetime.fromisoformat\<close>, \<^verbatim>\<open>ValidationError\<close> from
  the construction of a pydantic model, \<^verbatim>\<open>TypeError\<close> and \<^verbatim>\<open>NameError\<close> from the making
  of a pydantic class.
\<close>

datatype py_error = ValueError | ValidationError | TypeError | NameError

text \<open>\<^verbatim>\<open>d.get(key, default)\<close> on a \<^verbatim>\<open>dict\<close>.\<close>

definition dict_get :: "(string \<times> 'v) list \<Rightarrow> string \<Rightarrow> 'v \<Rightarrow> 'v" where
  "dict_get d key dflt = (case map_of d key of None \<Rightarrow> dflt | Some v \<Rightarrow> v)"

section \<open>Attributes and entities\<close>

subsection \<open>What pydantic does when a model is constructed\<close>

text \<open>
  Every class of the module is a pydantic \<^verbatim>\<open>BaseModel\<close>, and \<^verbatim>\<open>cls(**kwargs)\<close> validates
  each keyword against the annotation of its field: a missing field takes its default,
  or fails the construction when it has none; \<^verbatim>\<open>None\<close> is refused for a field that is
  neither optional nor \<^verbatim>\<open>Any\<close>; a value of the annotated type is kept as it is; keywords
  that name no field are ignored. Any failure is one \<^verbatim>\<open>ValidationError\<close>.

  What pydantic makes of a value of another type (it converts a number to a string, a
  numeric string to a float and a list of pairs to a dictionary, it refuses a list for a
  number) is the one part left to a parameter, the record \<open>coercions\<close>: \<open>None\<close> is
  a refusal.
\<close>

record coercions =
  str_coerce :: "pyval \<Rightarrow> string option"
  float_coerce :: "pyval \<Rightarrow> real option"
  dict_coerce :: "pyval \<Rightarrow> (string \<times> pyval) list option"

text \<open>The annotations \<^verbatim>\<open>str\<close> and \<^verbatim>\<open>float\<close>.\<close>

definition str_validator :: "coercions \<Rightarrow> pyval \<Rightarrow> string option" where
  "str_validator C v = (case v of PNone \<Rightarrow> None | PStr s \<Rightarrow> Some s | _ \<Rightarrow> str_coerce C v)"

definition float_validator :: "coercions \<Rightarrow> pyval \<Rightarrow> real option" where
  "float_validator C v = (case v of PNone \<Rightarrow> None | PFloat r \<Rightarrow> Some r | _ \<Rightarrow> float_coerce C v)"

text \<open>The coercions that refuse everything, to run the definitions with. What they
  refuse that pydantic converts is a value the examples below do not use.\<close>

definition strict :: coercions where
  "strict = \<lparr>str_coerce = (\<lambda>v. None), float_coerce = (\<lambda>v. None), dict_coerce = (\<lambda>v. None)\<rparr>"

subsection \<open>Attribute wrappers\<close>

text \<open>
  The three classes \<^verbatim>\<open>Attr\<close>, \<^verbatim>\<open>FloatAttr\<close> and \<^verbatim>\<open>TextAttr\<close>. An instance has the fields
  \<^verbatim>\<open>type\<close> and \<^verbatim>\<open>value\<close>, here \<open>attr_type\<close> and \<open>attr_value\<close>. \<^verbatim>\<open>Attr\<close> declares
  \<^verbatim>\<open>type: Optional[str]\<close> and \<^verbatim>\<open>value: Any\<close>, both with the default \<^verbatim>\<open>None\<close>; the two
  subclasses set \<^verbatim>\<open>type\<close> and narrow \<^verbatim>\<open>value\<close>, which they make a required field.
\<close>

datatype attr_cls = Attr | FloatAttr | TextAttr

record attr =
  attr_type :: "string option"
  attr_value :: pyval

fun type_default :: "attr_cls \<Rightarrow> string option" where
  "type_default Attr = None"
| "type_default FloatAttr = Some ''Number''"
| "type_default TextAttr = Some ''Text''"

fun validate_attr_value :: "coercions \<Rightarrow> attr_cls \<Rightarrow> pyval \<Rightarrow> pyval option" where
  "validate_attr_value C Attr v = Some v"
| "validate_attr_value C FloatAttr v = map_option PFloat (float_validator C v)"
| "validate_attr_value C TextAttr v = map_option PStr (str_validator C v)"

text \<open>\<^verbatim>\<open>cls(**kwargs)\<close> for one of the three classes.\<close>

definition attr_init :: "coercions \<Rightarrow> attr_cls \<Rightarrow> (string \<times> pyval) list \<Rightarrow> py_error + attr" where
  "attr_init C cls kwargs =
     (let t = (case map_of kwargs ''type'' of
                 None \<Rightarrow> Some (type_default cls)
               | Some PNone \<Rightarrow> (if cls = Attr then Some None else None)
               | Some v \<Rightarrow> map_option Some (str_validator C v));
          x = (case map_of kwargs ''value'' of
                 None \<Rightarrow> (if cls = Attr then Some PNone else None)
               | Some v \<Rightarrow> validate_attr_value C cls v)
      in case (t, x) of
           (Some t', Some x') \<Rightarrow> Inr \<lparr>attr_type = t', attr_value = x'\<rparr>
         | _ \<Rightarrow> Inl ValidationError)"

text \<open>The class method \<^verbatim>\<open>Attr.new\<close>.\<close>

definition new :: "coercions \<Rightarrow> attr_cls \<Rightarrow> pyval \<Rightarrow> py_error + attr option" where
  "new C cls v =
     (if v = PNone then Inr None
      else (case attr_init C cls [(''value'', v)] of
              Inl e \<Rightarrow> Inl e
            | Inr a \<Rightarrow> Inr (Some a)))"

subsection \<open>Entities\<close>

text \<open>
  \<^verbatim>\<open>BaseEntity\<close> declares \<^verbatim>\<open>id: str\<close> and \<^verbatim>\<open>type: str\<close>, both required. An entity kind is
  a subclass: it sets \<^verbatim>\<open>type\<close> to its literal and declares attribute fields. \<open>entity_cls\<close>
  is such a class: \<open>cls_type\<close> is the value the class gives to \<^verbatim>\<open>type\<close> (\<open>None\<close> for
  \<^verbatim>\<open>BaseEntity\<close> itself), \<open>cls_fields\<close> the fields it adds, each with its annotation and
  whether it is required; a field that is not required has the default \<^verbatim>\<open>None\<close>.
\<close>

datatype ftype = TAny | TStr | TFloat | TOptional ftype | TAttr attr_cls

datatype field_value = Plain pyval | Wrapped attr

record field_decl =
  field_name :: string
  field_type :: ftype
  field_required :: bool

record entity_cls =
  cls_type :: "string option"
  cls_fields :: "field_decl list"

definition BaseEntity :: entity_cls where
  "BaseEntity = \<lparr>cls_type = None, cls_fields = []\<rparr>"

text \<open>An instance: the fields \<^verbatim>\<open>id\<close> and \<^verbatim>\<open>type\<close>, and the attribute fields in the order
  of their declaration.\<close>

record entity =
  entity_id :: string
  entity_type :: string
  entity_attrs :: "(string \<times> field_value) list"

fun validate_field :: "coercions \<Rightarrow> ftype \<Rightarrow> pyval \<Rightarrow> field_value option" where
  "validate_field C TAny v = Some (Plain v)"
| "validate_field C TStr v = map_option (\<lambda>s. Plain (PStr s)) (str_validator C v)"
| "validate_field C TFloat v = map_option (\<lambda>r. Plain (PFloat r)) (float_validator C v)"
| "validate_field C (TOptional t) v = (if v = PNone then Some (Plain PNone) else validate_field C t v)"
| "validate_field C (TAttr cls) v =
     (case (case v of PNone \<Rightarrow> None | PDict kwargs \<Rightarrow> Some kwargs | _ \<Rightarrow> dict_coerce C v) of
        None \<Rightarrow> None
      | Some kwargs \<Rightarrow>
          (case attr_init C cls kwargs of Inl e \<Rightarrow> None | Inr a \<Rightarrow> Some (Wrapped a)))"

fun validate_fields ::
    "coercions \<Rightarrow> field_decl list \<Rightarrow> (string \<times> pyval) list \<Rightarrow> (string \<times> field_value) list option" where
  "validate_fields C [] kwargs = Some []"
| "validate_fields C (f # fs) kwargs =
     (let x = (case map_of kwargs (field_name f) of
                 None \<Rightarrow> (if field_required f then None else Some (Plain PNone))
               | Some v \<Rightarrow> validate_field C (field_type f) v)
      in case (x, validate_fields C fs kwargs) of
           (Some x', Some xs) \<Rightarrow> Some ((field_name f, x') # xs)
         | _ \<Rightarrow> None)"

text \<open>\<^verbatim>\<open>cls(**kwargs)\<close> for an entity class.\<close>

definition entity_init :: "coercions \<Rightarrow> entity_cls \<Rightarrow> (string \<times> pyval) list \<Rightarrow> py_error + entity" where
  "entity_init C cls kwargs =
     (let i = (case map_of kwargs ''id'' of None \<Rightarrow> None | Some v \<Rightarrow> str_validator C v);
          t = (case map_of kwargs ''type'' of None \<Rightarrow> cls_type cls | Some v \<Rightarrow> str_validator C v)
      in case (i, t, validate_fields C (cls_fields cls) kwargs) of
           (Some i', Some t', Some xs) \<Rightarrow>
             Inr \<lparr>entity_id = i', entity_type = t', entity_attrs = xs\<rparr>
         | _ \<Rightarrow> Inl ValidationError)"

definition ld_urn :: "string \<Rightarrow> string" where
  "ld_urn unique_suffix = ''urn:ngsi-ld:'' @ unique_suffix"

text \<open>\<^verbatim>\<open>set_id_with_type_prefix\<close> assigns to \<^verbatim>\<open>self.id\<close> and returns \<^verbatim>\<open>self\<close>: the entity
  returned is the entity given, with the new id.\<close>

definition set_id_with_type_prefix :: "entity \<Rightarrow> string \<Rightarrow> entity" where
  "set_id_with_type_prefix self unique_suffix =
     (let own_id = entity_type self @ '':'' @ unique_suffix
      in self\<lparr>entity_id := ld_urn own_id\<rparr>)"

text \<open>
  \<^verbatim>\<open>to_json\<close> is \<^verbatim>\<open>self.json(exclude_none=True)\<close>: pydantic turns the instance into a
  dictionary, the models inside it too, leaves out every field of a model that holds
  \<^verbatim>\<open>None\<close>, and encodes the dictionary. The result here is the JSON document, as the
  dictionary that is encoded.
\<close>

definition dump_attr :: "attr \<Rightarrow> pyval" where
  "dump_attr a =
     PDict ((case attr_type a of None \<Rightarrow> [] | Some t \<Rightarrow> [(''type'', PStr t)])
            @ (if attr_value a = PNone then [] else [(''value'', attr_value a)]))"

fun dump_field :: "field_value \<Rightarrow> pyval option" where
  "dump_field (Plain v) = (if v = PNone then None else Some v)"
| "dump_field (Wrapped a) = Some (dump_attr a)"

fun dump_fields :: "(string \<times> field_value) list \<Rightarrow> (string \<times> pyval) list" where
  "dump_fields [] = []"
| "dump_fields ((k, x) # xs) =
     (case dump_field x of None \<Rightarrow> dump_fields xs | Some v \<Rightarrow> (k, v) # dump_fields xs)"

definition to_json :: "entity \<Rightarrow> (string \<times> pyval) list" where
  "to_json self =
     (''id'', PStr (entity_id self)) # (''type'', PStr (entity_type self))
       # dump_fields (entity_attrs self)"

text \<open>The class method \<^verbatim>\<open>from_raw\<close>. \<^verbatim>\<open>cls(id='')\<close> is a construction like any other, and
  so is \<^verbatim>\<open>cls(**raw_entity)\<close>: the error of either is the error of \<^verbatim>\<open>from_raw\<close>.\<close>

definition from_raw :: "coercions \<Rightarrow> entity_cls \<Rightarrow> (string \<times> pyval) list \<Rightarrow> py_error + entity option" where
  "from_raw C cls raw_entity =
     (case entity_init C cls [(''id'', PStr '''')] of
        Inl e \<Rightarrow> Inl e
      | Inr own \<Rightarrow>
          (let own_type = entity_type own;
               etype = dict_get raw_entity ''type'' (PStr '''')
           in if PStr own_type \<noteq> etype then Inr None
              else (case entity_init C cls raw_entity of
                      Inl e \<Rightarrow> Inl e
                    | Inr x \<Rightarrow> Inr (Some x))))"

subsection \<open>Notifications\<close>

record entity_update_notification =
  data :: "(string \<times> pyval) list list"

text \<open>\<^verbatim>\<open>[entity_class.from_raw(d) for d in self.data]\<close>: the first record for which
  \<^verbatim>\<open>from_raw\<close> raises ends the comprehension, and the call.\<close>

fun candidates :: "coercions \<Rightarrow> entity_cls \<Rightarrow> (string \<times> pyval) list list \<Rightarrow> py_error + entity option list" where
  "candidates C cls [] = Inr []"
| "candidates C cls (d # ds) =
     (case from_raw C cls d of
        Inl e \<Rightarrow> Inl e
      | Inr c \<Rightarrow> (case candidates C cls ds of Inl e \<Rightarrow> Inl e | Inr cs \<Rightarrow> Inr (c # cs)))"

definition filter_entities :: "coercions \<Rightarrow> entity_update_notification \<Rightarrow> entity_cls \<Rightarrow> py_error + entity list" where
  "filter_entities C self entity_class =
     (case candidates C entity_class (data self) of
        Inl e \<Rightarrow> Inl e
      | Inr cs \<Rightarrow> Inr (concat (map (\<lambda>c. case c of None \<Rightarrow> [] | Some x \<Rightarrow> [x]) cs)))"

section \<open>Entity series\<close>

subsection \<open>The query result\<close>

text \<open>
  \<^verbatim>\<open>from_quantumleap_format\<close> takes ``a dictionary representing the JSON object returned
  by a call to the \<^verbatim>\<open>v2/entities/{entity ID}\<close> Quantum Leap endpoint''. The function reads
  three keys of it, each with \<^verbatim>\<open>.get\<close> and a default, and two keys of every element of
  \<^verbatim>\<open>attributes\<close>, so each key is optional here: \<open>None\<close> is the key missing. The time
  index is a list of strings, the values of an attribute are a list of anything.
\<close>

record attr_payload =
  attrName :: "string option"
  attrValues :: "pyval list option"

record entity_query_result =
  entityType :: "string option"
  raw_index :: "string list option"
  attributes :: "attr_payload list option"

subsection \<open>The series\<close>

text \<open>
  \<^verbatim>\<open>create_model(model_name, __base__=cls, **attr_fields)\<close> makes a subclass of
  \<^verbatim>\<open>EntitySeries\<close> named \<open>model_name\<close>; by the NOTE that closes the source file, each
  attribute name is passed as a field name and its array as that field's default, so
  that reading the attribute of the instance gives the array. \<open>dynamic_model\<close> is the
  class made, \<open>entity_series\<close> its instance: the name of the class, the \<open>index\<close> given
  to the constructor and the fields the class has besides \<open>index\<close>, each with its
  default. The timestamps are of any type \<open>'t\<close>: the function only stores what the
  parser returns.
\<close>

record dynamic_model =
  dm_name :: string
  dm_defaults :: "(string \<times> pyval list) list"

record 't entity_series =
  model_name :: string
  index :: "'t list"
  attr_fields :: "(string \<times> pyval list) list"

subsection \<open>Merging dictionaries\<close>

text \<open>\<^verbatim>\<open>d[k] = v\<close>: a key already in the dictionary keeps its place and takes the new value,
  a new key goes to the end.\<close>

fun dict_set :: "('k \<times> 'v) list \<Rightarrow> 'k \<Rightarrow> 'v \<Rightarrow> ('k \<times> 'v) list" where
  "dict_set [] k v = [(k, v)]"
| "dict_set ((k', v') # d) k v = (if k' = k then (k, v) # d else (k', v') # dict_set d k v)"

text \<open>\<^verbatim>\<open>d.update(e)\<close>: the items of \<open>e\<close> are stored in \<open>d\<close> one after the other.\<close>

fun dict_update :: "('k \<times> 'v) list \<Rightarrow> ('k \<times> 'v) list \<Rightarrow> ('k \<times> 'v) list" where
  "dict_update d [] = d"
| "dict_update d ((k, v) # e) = dict_update (dict_set d k v) e"

text \<open>
  Modelled from the spec: \<^verbatim>\<open>merge_dicts\<close> of \<^verbatim>\<open>fipy.dict\<close>, which the module imports and
  whose source is not at hand. The spec has it as a pure function that combines N
  mappings into one, where ``later entries override earlier ones with the same name''
  (last-write-wins). The arguments \<^verbatim>\<open>*ds\<close> are the list \<open>ds\<close>.
\<close>

definition merge_dicts :: "('k \<times> 'v) list list \<Rightarrow> ('k \<times> 'v) list" where
  "merge_dicts ds = fold (\<lambda>d acc. dict_update acc d) ds []"

subsection \<open>Building a series from a query result\<close>

text \<open>The local function \<^verbatim>\<open>to_kv\<close>: a dictionary of one item, or the empty dictionary
  for a payload whose \<^verbatim>\<open>attrName\<close> is missing or empty.\<close>

definition to_kv :: "attr_payload \<Rightarrow> (string \<times> pyval list) list" where
  "to_kv attr_payload =
     (let key = (case attrName attr_payload of None \<Rightarrow> '''' | Some k \<Rightarrow> k)
      in if key = '''' then []
         else [(key, case attrValues attr_payload of None \<Rightarrow> [] | Some vs \<Rightarrow> vs)])"

text \<open>
  \<^verbatim>\<open>[datetime.fromisoformat(t) for t in raw_tix]\<close>. The parser belongs to the standard
  library, so it is the parameter \<open>parse\<close>: \<open>None\<close> is its \<^verbatim>\<open>ValueError\<close>. The
  first string it refuses ends the comprehension.
\<close>

fun parse_index :: "(string \<Rightarrow> 't option) \<Rightarrow> string list \<Rightarrow> py_error + 't list" where
  "parse_index parse [] = Inr []"
| "parse_index parse (t # ts) =
     (case parse t of
        None \<Rightarrow> Inl ValueError
      | Some d \<Rightarrow>
          (case parse_index parse ts of
             Inl e \<Rightarrow> Inl e
           | Inr ds \<Rightarrow> Inr (d # ds)))"

text \<open>
  Not every name that is passed becomes a field. pydantic (version 1, the one whose
  \<^verbatim>\<open>create_model\<close> takes a default for a field definition) builds the class from the
  definitions as follows, \<^verbatim>\<open>cls\<close> being \<^verbatim>\<open>EntitySeries\<close>:

  \<^item> The call on line 146 gives the keyword \<^verbatim>\<open>__base__\<close> itself, so an attribute of
    that name makes it a call with one keyword given twice, which Python refuses with
    a \<^verbatim>\<open>TypeError\<close> before pydantic runs.
  \<^item> A name that starts with an underscore is never a field: pydantic warns and
    ignores it. Some of these names have a meaning for Python or for pydantic
    (\<^verbatim>\<open>__config__\<close>, \<^verbatim>\<open>__init__\<close>), and the call may fail for them; which do, and with
    what exception, is the parameter \<open>reserved\<close>, \<open>None\<close> for a name that is only
    ignored.
  \<^item> The class body may hold a \<^verbatim>\<open>Config\<close>, which pydantic reads before the fields: an
    array that is not empty is no configuration class, a \<^verbatim>\<open>TypeError\<close>.
  \<^item> The other names are taken in their order. A name for which the base class has
    an attribute (\<^verbatim>\<open>validate_field_name\<close>) is refused with a \<^verbatim>\<open>NameError\<close>: these
    are the public attributes of \<^verbatim>\<open>BaseModel\<close> and of its metaclass, and the class
    method the module itself adds. \<^verbatim>\<open>index\<close> is the field \<^verbatim>\<open>EntitySeries\<close> declares as
    \<^verbatim>\<open>List[datetime]\<close>: an array as its new default is refused with a \<^verbatim>\<open>TypeError\<close>
    (the type of the default is not the type of the field). Every other name becomes
    a field whose default is its array.
\<close>

definition startswith_underscore :: "string \<Rightarrow> bool" where
  "startswith_underscore name = (case name of [] \<Rightarrow> False | c # cs \<Rightarrow> c = CHR ''_'')"

definition base_attributes :: "string list" where
  "base_attributes =
     [''Config'', ''construct'', ''copy'', ''dict'', ''from_orm'', ''json'', ''parse_file'',
      ''parse_obj'', ''parse_raw'', ''schema'', ''schema_json'', ''update_forward_refs'',
      ''validate'', ''mro'', ''register'', ''from_quantumleap_format'']"

fun first_refused :: "(string \<Rightarrow> py_error option) \<Rightarrow> (string \<times> 'v) list \<Rightarrow> py_error option" where
  "first_refused reserved [] = None"
| "first_refused reserved ((name, v) # ds) =
     (case (if startswith_underscore name then reserved name else None) of
        Some e \<Rightarrow> Some e
      | None \<Rightarrow> first_refused reserved ds)"

fun model_fields :: "(string \<times> 'v) list \<Rightarrow> py_error + (string \<times> 'v) list" where
  "model_fields [] = Inr []"
| "model_fields ((name, v) # ds) =
     (if startswith_underscore name then model_fields ds
      else if name \<in> set base_attributes then Inl NameError
      else if name = ''index'' then Inl TypeError
      else (case model_fields ds of Inl e \<Rightarrow> Inl e | Inr fs \<Rightarrow> Inr ((name, v) # fs)))"

definition create_model ::
    "(string \<Rightarrow> py_error option) \<Rightarrow> string \<Rightarrow> (string \<times> pyval list) list
       \<Rightarrow> py_error + dynamic_model" where
  "create_model reserved name field_definitions =
     (if ''__base__'' \<in> set (map fst field_definitions) then Inl TypeError
      else (case first_refused reserved field_definitions of
         Some e \<Rightarrow> Inl e
       | None \<Rightarrow>
           (case map_of field_definitions ''Config'' of
              Some (v # vs) \<Rightarrow> Inl TypeError
            | _ \<Rightarrow>
                (case model_fields field_definitions of
                   Inl e \<Rightarrow> Inl e
                 | Inr fs \<Rightarrow> Inr \<lparr>dm_name = name, dm_defaults = fs\<rparr>))))"

text \<open>\<^verbatim>\<open>dynamic_model(index=tix)\<close>: the index is given, the other fields take their defaults.\<close>

definition new_series :: "dynamic_model \<Rightarrow> 't list \<Rightarrow> 't entity_series" where
  "new_series m tix = \<lparr>model_name = dm_name m, index = tix, attr_fields = dm_defaults m\<rparr>"

definition from_quantumleap_format ::
    "(string \<Rightarrow> 't option) \<Rightarrow> (string \<Rightarrow> py_error option) \<Rightarrow> entity_query_result
       \<Rightarrow> py_error + 't entity_series" where
  "from_quantumleap_format parse reserved q =
     (let attrs = (case attributes q of None \<Rightarrow> [] | Some xs \<Rightarrow> xs);
          merged = merge_dicts (map to_kv attrs);
          raw_tix = (case raw_index q of None \<Rightarrow> [] | Some ts \<Rightarrow> ts)
      in case parse_index parse raw_tix of
           Inl e \<Rightarrow> Inl e
         | Inr tix \<Rightarrow>
             (let name = (case entityType q of None \<Rightarrow> '''' | Some n \<Rightarrow> n) @ ''Series''
              in case create_model reserved name merged of
                   Inl e \<Rightarrow> Inl e
                 | Inr m \<Rightarrow> Inr (new_series m tix)))"

subsection \<open>Timestamps\<close>

text \<open>
  \<^verbatim>\<open>datetime\<close> and \<^verbatim>\<open>datetime.fromisoformat\<close> belong to the standard library. The
  builder is proved for every parser; the definitions below give one to run it with.
  They follow \<^verbatim>\<open>Lib/datetime.py\<close> of Python 3.7 to 3.10, which reads the format
  \<^verbatim>\<open>YYYY-MM-DD[*HH[:MM[:SS[.fff[fff]]]][+HH:MM[:SS[.ffffff]]]]\<close>. \<open>utcoffset\<close> is the
  offset of an aware timestamp in microseconds, \<open>None\<close> for a naive one.
\<close>

record datetime =
  year :: nat
  month :: nat
  day :: nat
  hour :: nat
  minute :: nat
  second :: nat
  microsecond :: nat
  utcoffset :: "int option"

definition digit :: "char \<Rightarrow> nat option" where
  "digit c = (let n = (of_char c :: nat) in if 48 \<le> n \<and> n \<le> 57 then Some (n - 48) else None)"

fun digits_acc :: "nat \<Rightarrow> string \<Rightarrow> nat option" where
  "digits_acc acc [] = Some acc"
| "digits_acc acc (c # cs) =
     (case digit c of None \<Rightarrow> None | Some d \<Rightarrow> digits_acc (10 * acc + d) cs)"

text \<open>\<^verbatim>\<open>int(s)\<close> on a string of decimal digits.\<close>

definition digits :: "string \<Rightarrow> nat option" where
  "digits s = (if s = [] then None else digits_acc 0 s)"

definition is_leap :: "nat \<Rightarrow> bool" where
  "is_leap y = (y mod 4 = 0 \<and> (y mod 100 \<noteq> 0 \<or> y mod 400 = 0))"

definition days_in_month :: "nat \<Rightarrow> nat \<Rightarrow> nat" where
  "days_in_month y m =
     (if m = 2 \<and> is_leap y then 29
      else [0, 31, 28, 31, 30, 31, 30, 31, 31, 30, 31, 30, 31] ! m)"

definition days_before_year :: "nat \<Rightarrow> int" where
  "days_before_year y =
     (let z = int y - 1 in z * 365 + z div 4 - z div 100 + z div 400)"

definition days_before_month :: "nat \<Rightarrow> nat \<Rightarrow> int" where
  "days_before_month y m =
     [0, 0, 31, 59, 90, 120, 151, 181, 212, 243, 273, 304, 334] ! m
       + (if m > 2 \<and> is_leap y then 1 else 0)"

definition toordinal :: "datetime \<Rightarrow> int" where
  "toordinal d =
     days_before_year (year d) + days_before_month (year d) (month d) + int (day d)"

text \<open>The checks of the constructor (\<^verbatim>\<open>_check_date_fields\<close>, \<^verbatim>\<open>_check_time_fields\<close>), and
  the bound of \<^verbatim>\<open>timezone\<close> on an offset: strictly between minus and plus 24 hours.\<close>

definition check_date_fields :: "nat \<Rightarrow> nat \<Rightarrow> nat \<Rightarrow> bool" where
  "check_date_fields y m d =
     (1 \<le> y \<and> y \<le> 9999 \<and> 1 \<le> m \<and> m \<le> 12 \<and> 1 \<le> d \<and> d \<le> days_in_month y m)"

definition check_time_fields :: "nat \<Rightarrow> nat \<Rightarrow> nat \<Rightarrow> nat \<Rightarrow> bool" where
  "check_time_fields h mi s us = (h \<le> 23 \<and> mi \<le> 59 \<and> s \<le> 59 \<and> us \<le> 999999)"

definition check_utcoffset :: "int option \<Rightarrow> bool" where
  "check_utcoffset off =
     (case off of None \<Rightarrow> True | Some us \<Rightarrow> - 86400000000 < us \<and> us < 86400000000)"

definition parse_isoformat_date :: "string \<Rightarrow> (nat \<times> nat \<times> nat) option" where
  "parse_isoformat_date dtstr =
     (if length dtstr = 10 \<and> dtstr ! 4 = CHR ''-'' \<and> dtstr ! 7 = CHR ''-'' then
        (case (digits (take 4 dtstr), digits (take 2 (drop 5 dtstr)), digits (drop 8 dtstr)) of
           (Some y, Some m, Some d) \<Rightarrow> Some (y, m, d)
         | _ \<Rightarrow> None)
      else None)"

definition two_digits :: "string \<Rightarrow> (nat \<times> string) option" where
  "two_digits s =
     (if length s < 2 then None
      else (case digits (take 2 s) of None \<Rightarrow> None | Some n \<Rightarrow> Some (n, drop 2 s)))"

definition parse_fraction :: "string \<Rightarrow> nat option" where
  "parse_fraction ff =
     (if length ff = 3 then map_option (\<lambda>n. n * 1000) (digits ff)
      else if length ff = 6 then digits ff
      else None)"

definition parse_hh_mm_ss_ff :: "string \<Rightarrow> (nat \<times> nat \<times> nat \<times> nat) option" where
  "parse_hh_mm_ss_ff tstr =
     (case two_digits tstr of
        None \<Rightarrow> None
      | Some (hh, r1) \<Rightarrow>
          (case r1 of
             [] \<Rightarrow> Some (hh, 0, 0, 0)
           | c1 # s1 \<Rightarrow>
               if c1 \<noteq> CHR '':'' then None
               else (case two_digits s1 of
                  None \<Rightarrow> None
                | Some (mm, r2) \<Rightarrow>
                    (case r2 of
                       [] \<Rightarrow> Some (hh, mm, 0, 0)
                     | c2 # s2 \<Rightarrow>
                         if c2 \<noteq> CHR '':'' then None
                         else (case two_digits s2 of
                            None \<Rightarrow> None
                          | Some (ss, r3) \<Rightarrow>
                              (case r3 of
                                 [] \<Rightarrow> Some (hh, mm, ss, 0)
                               | c3 # ff \<Rightarrow>
                                   if c3 \<noteq> CHR ''.'' then None
                                   else map_option (\<lambda>us. (hh, mm, ss, us)) (parse_fraction ff)))))))"

text \<open>The place of the sign that starts the offset: the first \<^verbatim>\<open>-\<close> if there is one, else
  the first \<^verbatim>\<open>+\<close> (\<^verbatim>\<open>tstr.find('-') + 1 or tstr.find('+') + 1\<close>).\<close>

definition find_char :: "char \<Rightarrow> string \<Rightarrow> nat option" where
  "find_char c s = (if c \<in> set s then Some (length (takeWhile (\<lambda>x. x \<noteq> c) s)) else None)"

definition tz_pos :: "string \<Rightarrow> nat option" where
  "tz_pos tstr =
     (case find_char (CHR ''-'') tstr of
        Some i \<Rightarrow> Some i
      | None \<Rightarrow> find_char (CHR ''+'') tstr)"

definition parse_tz :: "char \<Rightarrow> string \<Rightarrow> int option" where
  "parse_tz sign tzstr =
     (if length tzstr \<notin> {5, 8, 15} then None
      else (case parse_hh_mm_ss_ff tzstr of
         None \<Rightarrow> None
       | Some (hh, mm, ss, us) \<Rightarrow>
           (let td = ((int hh * 60 + int mm) * 60 + int ss) * 1000000 + int us
            in Some (if sign = CHR ''-'' then - td else td))))"

definition parse_isoformat_time :: "string \<Rightarrow> ((nat \<times> nat \<times> nat \<times> nat) \<times> int option) option" where
  "parse_isoformat_time tstr =
     (if length tstr < 2 then None
      else (case tz_pos tstr of
         None \<Rightarrow> map_option (\<lambda>t. (t, None)) (parse_hh_mm_ss_ff tstr)
       | Some i \<Rightarrow>
           (case (parse_hh_mm_ss_ff (take i tstr), parse_tz (tstr ! i) (drop (Suc i) tstr)) of
              (Some t, Some off) \<Rightarrow> Some (t, Some off)
            | _ \<Rightarrow> None)))"

definition fromisoformat :: "string \<Rightarrow> datetime option" where
  "fromisoformat date_string =
     (case parse_isoformat_date (take 10 date_string) of
        None \<Rightarrow> None
      | Some (y, m, d) \<Rightarrow>
          (case (if drop 11 date_string = [] then Some ((0, 0, 0, 0), None)
                 else parse_isoformat_time (drop 11 date_string)) of
             None \<Rightarrow> None
           | Some ((h, mi, s, us), off) \<Rightarrow>
               if check_date_fields y m d \<and> check_time_fields h mi s us \<and> check_utcoffset off
               then Some \<lparr>year = y, month = m, day = d, hour = h, minute = mi, second = s,
                           microsecond = us, utcoffset = off\<rparr>
               else None))"

text \<open>
  \<^verbatim>\<open>a - b\<close> on two timestamps, as the number of microseconds of the \<^verbatim>\<open>timedelta\<close>.
  A naive and an aware timestamp cannot be subtracted.
\<close>

definition sub_datetime :: "datetime \<Rightarrow> datetime \<Rightarrow> py_error + int" where
  "sub_datetime a b =
     (let secs1 = int (second a) + int (minute a) * 60 + int (hour a) * 3600;
          secs2 = int (second b) + int (minute b) * 60 + int (hour b) * 3600;
          base = ((toordinal a - toordinal b) * 86400 + (secs1 - secs2)) * 1000000
                   + (int (microsecond a) - int (microsecond b))
      in case (utcoffset a, utcoffset b) of
           (None, None) \<Rightarrow> Inr base
         | (Some myoff, Some otoff) \<Rightarrow> Inr (base + otoff - myoff)
         | _ \<Rightarrow> Inl TypeError)"

section \<open>Examples\<close>

text \<open>
  Two entity kinds, two records of a notification, an entity and a query result, to
  run the definitions on. \<open>Bot\<close> is a kind whose attribute is optional, and \<open>Drone\<close>
  one that requires its attribute:
  \<^verbatim>\<open>
  class Bot(BaseEntity):
      type = 'Bot'
      speed: Optional[FloatAttr]

  class Drone(BaseEntity):
      type = 'Drone'
      speed: FloatAttr
  \<close>
\<close>

definition Bot :: entity_cls where
  "Bot = \<lparr>cls_type = Some ''Bot'',
          cls_fields = [\<lparr>field_name = ''speed'', field_type = TOptional (TAttr FloatAttr),
                          field_required = False\<rparr>]\<rparr>"

definition Drone :: entity_cls where
  "Drone = \<lparr>cls_type = Some ''Drone'',
            cls_fields = [\<lparr>field_name = ''speed'', field_type = TAttr FloatAttr,
                            field_required = True\<rparr>]\<rparr>"

definition bot_record :: "(string \<times> pyval) list" where
  "bot_record = [(''id'', PStr ''urn:ngsi-ld:Bot:1''), (''type'', PStr ''Bot''),
                 (''speed'', PDict [(''type'', PStr ''Number''), (''value'', PFloat 1.5)])]"

definition car_record :: "(string \<times> pyval) list" where
  "car_record = [(''id'', PStr ''urn:ngsi-ld:Car:7''), (''type'', PStr ''Car''),
                 (''speed'', PStr ''fast'')]"

definition bot_entity :: entity where
  "bot_entity = \<lparr>entity_id = ''urn:ngsi-ld:Bot:1'', entity_type = ''Bot'',
                  entity_attrs = [(''speed'', Wrapped \<lparr>attr_type = Some ''Number'',
                                                        attr_value = PFloat 1.5\<rparr>),
                                  (''direction'', Plain PNone),
                                  (''name'', Plain (PStr ''r2''))]\<rparr>"

definition room :: entity_query_result where
  "room = \<lparr>entityType = Some ''Room'',
           raw_index = Some [''2020-01-01T00:00:00'', ''2020-01-01T01:00:00''],
           attributes = Some [\<lparr>attrName = Some ''temp'', attrValues = Some [PInt 10, PInt 12]\<rparr>]\<rparr>"

definition new_year :: "nat \<Rightarrow> datetime" where
  "new_year h = \<lparr>year = 2020, month = 1, day = 1, hour = h, minute = 0, second = 0,
                  microsecond = 0, utcoffset = None\<rparr>"

section \<open>Properties of the attribute wrappers and the entities\<close>

subsection \<open>Construction from an id alone\<close>

text \<open>\<^verbatim>\<open>cls(id='')\<close> succeeds for a kind that sets its type and requires no attribute.\<close>

lemma validate_fields_id_only:
  assumes "\<forall>f \<in> set fs. \<not> field_required f \<and> field_name f \<noteq> ''id''"
  shows "validate_fields C fs [(''id'', PStr '''')] = Some (map (\<lambda>f. (field_name f, Plain PNone)) fs)"
  using assms by (induction fs) auto

lemma entity_init_id_only:
  assumes "cls_type cls = Some t"
    and "\<forall>f \<in> set (cls_fields cls). \<not> field_required f \<and> field_name f \<noteq> ''id''"
  shows "entity_init C cls [(''id'', PStr '''')]
           = Inr \<lparr>entity_id = '''', entity_type = t,
                   entity_attrs = map (\<lambda>f. (field_name f, Plain PNone)) (cls_fields cls)\<rparr>"
  using assms(1) validate_fields_id_only [OF assms(2)]
  by (simp add: entity_init_def str_validator_def)

lemma from_raw_kind:
  assumes "cls_type cls = Some t"
    and "\<forall>f \<in> set (cls_fields cls). \<not> field_required f \<and> field_name f \<noteq> ''id''"
  shows "from_raw C cls raw =
           (if dict_get raw ''type'' (PStr '''') \<noteq> PStr t then Inr None
            else (case entity_init C cls raw of Inl e \<Rightarrow> Inl e | Inr x \<Rightarrow> Inr (Some x)))"
  using entity_init_id_only [OF assms]
  by (auto simp add: from_raw_def Let_def)

lemma entity_init_error: "entity_init C cls raw = Inl e \<Longrightarrow> e = ValidationError"
  by (auto simp: entity_init_def Let_def split: option.splits)

text \<open>Both failures below come from a field that is required and missing, so they are
  failures for every choice of the coercions.\<close>

lemma entity_init_without_id:
  "map_of kwargs ''id'' = None \<Longrightarrow> entity_init C cls kwargs = Inl ValidationError"
  by (simp add: entity_init_def)

lemma from_raw_Drone: "from_raw C Drone raw = Inl ValidationError"
  by (simp add: Drone_def from_raw_def entity_init_def str_validator_def)

subsection \<open>The candidates of a notification\<close>

lemma candidates_kind:
  assumes "cls_type cls = Some t"
    and "\<forall>f \<in> set (cls_fields cls). \<not> field_required f \<and> field_name f \<noteq> ''id''"
  shows "list_all2 (\<lambda>d x. entity_init C cls d = Inr x)
           (filter (\<lambda>d. dict_get d ''type'' (PStr '''') = PStr t) ds) xs
         \<Longrightarrow> \<exists>cs. candidates C cls ds = Inr cs
               \<and> concat (map (\<lambda>c. case c of None \<Rightarrow> [] | Some x \<Rightarrow> [x]) cs) = xs"
proof (induction ds arbitrary: xs)
  case Nil
  then show ?case by simp
next
  case (Cons d ds)
  show ?case
  proof (cases "dict_get d ''type'' (PStr '''') = PStr t")
    case False
    with Cons.prems have "list_all2 (\<lambda>d x. entity_init C cls d = Inr x)
           (filter (\<lambda>d. dict_get d ''type'' (PStr '''') = PStr t) ds) xs" by simp
    from Cons.IH [OF this] False show ?thesis
      by (auto simp: from_raw_kind [OF assms])
  next
    case True
    with Cons.prems obtain y ys where xs: "xs = y # ys" and y: "entity_init C cls d = Inr y"
      and ys: "list_all2 (\<lambda>d x. entity_init C cls d = Inr x)
           (filter (\<lambda>d. dict_get d ''type'' (PStr '''') = PStr t) ds) ys"
      by (auto simp: list_all2_Cons1)
    from Cons.IH [OF ys] True y xs show ?thesis
      by (auto simp: from_raw_kind [OF assms])
  qed
qed

lemma candidates_fail:
  assumes "cls_type cls = Some t"
    and "\<forall>f \<in> set (cls_fields cls). \<not> field_required f \<and> field_name f \<noteq> ''id''"
  shows "\<exists>d \<in> set ds. dict_get d ''type'' (PStr '''') = PStr t
                \<and> entity_init C cls d = Inl ValidationError
         \<Longrightarrow> candidates C cls ds = Inl ValidationError"
proof (induction ds)
  case Nil
  then show ?case by simp
next
  case (Cons d ds)
  show ?case
  proof (cases "from_raw C cls d")
    case (Inl e)
    then have "e = ValidationError"
      by (auto simp: from_raw_kind [OF assms] split: if_splits sum.splits dest: entity_init_error)
    with Inl show ?thesis by simp
  next
    case (Inr c)
    then have "\<not> (dict_get d ''type'' (PStr '''') = PStr t
                  \<and> entity_init C cls d = Inl ValidationError)"
      by (auto simp: from_raw_kind [OF assms])
    with Cons.prems have "\<exists>d \<in> set ds. dict_get d ''type'' (PStr '''') = PStr t
                              \<and> entity_init C cls d = Inl ValidationError"
      by auto
    from Cons.IH [OF this] Inr show ?thesis by simp
  qed
qed

lemma bot_record_decodes:
  "entity_init strict Bot bot_record
     = Inr \<lparr>entity_id = ''urn:ngsi-ld:Bot:1'', entity_type = ''Bot'',
             entity_attrs = [(''speed'', Wrapped \<lparr>attr_type = Some ''Number'',
                                                   attr_value = PFloat 1.5\<rparr>)]\<rparr>"
  by (simp add: entity_init_def Bot_def bot_record_def str_validator_def float_validator_def
      attr_init_def)

text \<open>
  C5, as the code has it. \<^verbatim>\<open>filter_entities\<close> has no handler for the error of
  \<^verbatim>\<open>from_raw\<close>. For a kind that sets its type to \<open>t\<close> and requires no attribute: when
  every record of type \<open>t\<close> decodes, the result is the decoded records of type \<open>t\<close> in
  the order of the batch, the records of another type being dropped; when a record of
  type \<open>t\<close> does not decode, the call fails with that \<^verbatim>\<open>ValidationError\<close>.
\<close>

theorem filter_entities_matching:
  assumes "cls_type cls = Some t"
    and "\<forall>f \<in> set (cls_fields cls). \<not> field_required f \<and> field_name f \<noteq> ''id''"
  shows "(list_all2 (\<lambda>d x. entity_init C cls d = Inr x)
            (filter (\<lambda>d. dict_get d ''type'' (PStr '''') = PStr t) (data n)) xs
          \<longrightarrow> filter_entities C n cls = Inr xs)
       \<and> ((\<exists>d \<in> set (data n). dict_get d ''type'' (PStr '''') = PStr t
                \<and> entity_init C cls d = Inl ValidationError)
          \<longrightarrow> filter_entities C n cls = Inl ValidationError)"
proof (intro conjI impI)
  assume "list_all2 (\<lambda>d x. entity_init C cls d = Inr x)
            (filter (\<lambda>d. dict_get d ''type'' (PStr '''') = PStr t) (data n)) xs"
  from candidates_kind [OF assms this] show "filter_entities C n cls = Inr xs"
    by (auto simp: filter_entities_def)
next
  assume "\<exists>d \<in> set (data n). dict_get d ''type'' (PStr '''') = PStr t
                \<and> entity_init C cls d = Inl ValidationError"
  from candidates_fail [OF assms this] show "filter_entities C n cls = Inl ValidationError"
    by (simp add: filter_entities_def)
qed

text \<open>A batch of a \<open>Bot\<close> and a \<open>Car\<close>: the \<open>Car\<close> is dropped, whatever its fields.\<close>

theorem filter_entities_matching_witness:
  "filter_entities strict \<lparr>data = [car_record, bot_record]\<rparr> Bot
     = Inr [\<lparr>entity_id = ''urn:ngsi-ld:Bot:1'', entity_type = ''Bot'',
              entity_attrs = [(''speed'', Wrapped \<lparr>attr_type = Some ''Number'',
                                                    attr_value = PFloat 1.5\<rparr>)]\<rparr>]"
proof -
  have k: "cls_type Bot = Some ''Bot''"
    "\<forall>f \<in> set (cls_fields Bot). \<not> field_required f \<and> field_name f \<noteq> ''id''"
    by (simp_all add: Bot_def)
  have m: "filter (\<lambda>d. dict_get d ''type'' (PStr '''') = PStr ''Bot'')
             (data \<lparr>data = [car_record, bot_record]\<rparr>) = [bot_record]"
    by (simp add: car_record_def bot_record_def dict_get_def)
  show ?thesis
    using filter_entities_matching [OF k, of strict "\<lparr>data = [car_record, bot_record]\<rparr>"
        "[\<lparr>entity_id = ''urn:ngsi-ld:Bot:1'', entity_type = ''Bot'',
              entity_attrs = [(''speed'', Wrapped \<lparr>attr_type = Some ''Number'',
                                                    attr_value = PFloat 1.5\<rparr>)]\<rparr>]"]
    unfolding m by (simp add: bot_record_decodes)
qed

text \<open>A batch whose second record has the type of the kind and no \<^verbatim>\<open>id\<close>: the call
  returns no list, the first record is lost with it.\<close>

theorem filter_entities_malformed_counterexample:
  "filter_entities strict \<lparr>data = [bot_record, [(''type'', PStr ''Bot'')]]\<rparr> Bot
     = Inl ValidationError"
  by (simp add: filter_entities_def from_raw_def entity_init_def Bot_def bot_record_def
      str_validator_def float_validator_def attr_init_def dict_get_def)

text \<open>
  C6, as the code has it. \<^verbatim>\<open>from_raw\<close> first constructs \<^verbatim>\<open>cls(id='')\<close> to read the type
  of the kind. For a kind that sets its type to \<open>t\<close> and requires no attribute, a
  record whose \<^verbatim>\<open>type\<close> is not \<open>t\<close> (or is missing, when \<open>t\<close> is not empty) gives
  \<^verbatim>\<open>None\<close> without error, whatever its other fields.
\<close>

theorem from_raw_other_type:
  assumes "cls_type cls = Some t"
    and "\<forall>f \<in> set (cls_fields cls). \<not> field_required f \<and> field_name f \<noteq> ''id''"
    and "dict_get raw ''type'' (PStr '''') \<noteq> PStr t"
  shows "from_raw C cls raw = Inr None"
  using from_raw_kind [OF assms(1,2)] assms(3) by simp

theorem from_raw_other_type_witness:
  "from_raw strict Bot car_record = Inr None"
proof -
  have "cls_type Bot = Some ''Bot''"
    and "\<forall>f \<in> set (cls_fields Bot). \<not> field_required f \<and> field_name f \<noteq> ''id''"
    and "dict_get car_record ''type'' (PStr '''') \<noteq> PStr ''Bot''"
    by (simp_all add: Bot_def car_record_def dict_get_def)
  then show ?thesis by (rule from_raw_other_type)
qed

text \<open>\<open>Drone\<close> requires \<^verbatim>\<open>speed\<close>, so \<^verbatim>\<open>Drone(id='')\<close> fails, and \<^verbatim>\<open>from_raw\<close> with it, on
  a record of another type.\<close>

theorem from_raw_required_counterexample:
  "cls_type Drone = Some ''Drone''
   \<and> dict_get car_record ''type'' (PStr '''') \<noteq> PStr ''Drone''
   \<and> from_raw strict Drone car_record = Inl ValidationError"
  by (simp add: Drone_def car_record_def from_raw_def entity_init_def str_validator_def
      dict_get_def)

text \<open>
  C7, as the code has it. \<^verbatim>\<open>new\<close> gives \<^verbatim>\<open>None\<close> for \<^verbatim>\<open>None\<close>. For a value of the type
  the class annotates (any value for \<^verbatim>\<open>Attr\<close>, a float for \<^verbatim>\<open>FloatAttr\<close>, a string for
  \<^verbatim>\<open>TextAttr\<close>) it gives a wrapper of that very value, with the type tag of the class:
  none for \<^verbatim>\<open>Attr\<close>, \<^verbatim>\<open>Number\<close> for \<^verbatim>\<open>FloatAttr\<close>, \<^verbatim>\<open>Text\<close> for \<^verbatim>\<open>TextAttr\<close>.
\<close>

theorem new_wraps_value:
  "new C cls PNone = Inr None
   \<and> (v \<noteq> PNone \<longrightarrow> new C Attr v = Inr (Some \<lparr>attr_type = None, attr_value = v\<rparr>))
   \<and> new C FloatAttr (PFloat r) = Inr (Some \<lparr>attr_type = Some ''Number'', attr_value = PFloat r\<rparr>)
   \<and> new C TextAttr (PStr s) = Inr (Some \<lparr>attr_type = Some ''Text'', attr_value = PStr s\<rparr>)"
  by (simp add: new_def attr_init_def float_validator_def str_validator_def)

theorem new_wraps_value_witness:
  "new strict FloatAttr PNone = Inr None
   \<and> new strict Attr (PList [PInt 1]) = Inr (Some \<lparr>attr_type = None, attr_value = PList [PInt 1]\<rparr>)
   \<and> new strict FloatAttr (PFloat 1.5) = Inr (Some \<lparr>attr_type = Some ''Number'', attr_value = PFloat 1.5\<rparr>)
   \<and> new strict TextAttr (PStr ''on'') = Inr (Some \<lparr>attr_type = Some ''Text'', attr_value = PStr ''on''\<rparr>)"
  using new_wraps_value [of strict FloatAttr "PList [PInt 1]" "1.5" "''on''"]
  by simp

text \<open>A list is a concrete value and no float: \<^verbatim>\<open>FloatAttr.new([10, 12])\<close> raises.\<close>

theorem new_rejects_counterexample:
  "PList [PInt 10, PInt 12] \<noteq> PNone
   \<and> new strict FloatAttr (PList [PInt 10, PInt 12]) = Inl ValidationError"
  by (simp add: new_def attr_init_def float_validator_def strict_def)

subsection \<open>Serialisation\<close>

lemma dump_fields_keys: "fst ` set (dump_fields xs) \<subseteq> fst ` set xs"
  by (induction xs rule: dump_fields.induct) (auto split: option.splits)

lemma map_of_dump_fields:
  "distinct (map fst xs) \<Longrightarrow> (k, x) \<in> set xs \<Longrightarrow> map_of (dump_fields xs) k = dump_field x"
proof (induction xs rule: dump_fields.induct)
  case 1
  then show ?case by simp
next
  case (2 k' x' xs)
  show ?case
  proof (cases "k' = k")
    case True
    with "2.prems" have x: "x' = x" by (auto simp: rev_image_eqI)
    from True "2.prems" have "k \<notin> fst ` set xs" by auto
    with dump_fields_keys have "k \<notin> fst ` set (dump_fields xs)" by blast
    then have "map_of (dump_fields xs) k = None" by (simp add: map_of_eq_None_iff)
    with True x show ?thesis by (simp split: option.splits)
  next
    case False
    with 2 show ?thesis by (auto split: option.splits)
  qed
qed

text \<open>
  C8. The attribute fields of an entity have distinct names, other than \<^verbatim>\<open>id\<close> and
  \<^verbatim>\<open>type\<close>. The document \<^verbatim>\<open>to_json\<close> encodes always has the id and the type of the
  entity. It has no key for an attribute field that holds \<^verbatim>\<open>None\<close>. For a field that is
  set it has the key: with the value itself, when the field holds a plain value; when
  it holds a wrapper (of a value, which \<^verbatim>\<open>new\<close> never makes \<^verbatim>\<open>None\<close>), with the value of
  the wrapper as it is and with its type tag, when the wrapper has one.
\<close>

theorem to_json_exclude_none:
  assumes "distinct (map fst (entity_attrs self))" and "k \<noteq> ''id''" and "k \<noteq> ''type''"
  shows "map_of (to_json self) ''id'' = Some (PStr (entity_id self))
       \<and> map_of (to_json self) ''type'' = Some (PStr (entity_type self))
       \<and> ((k, Plain PNone) \<in> set (entity_attrs self) \<longrightarrow> k \<notin> fst ` set (to_json self))
       \<and> ((k, Plain v) \<in> set (entity_attrs self) \<and> v \<noteq> PNone
            \<longrightarrow> map_of (to_json self) k = Some v)
       \<and> ((k, Wrapped \<lparr>attr_type = Some t, attr_value = v\<rparr>) \<in> set (entity_attrs self) \<and> v \<noteq> PNone
            \<longrightarrow> map_of (to_json self) k = Some (PDict [(''type'', PStr t), (''value'', v)]))
       \<and> ((k, Wrapped \<lparr>attr_type = None, attr_value = v\<rparr>) \<in> set (entity_attrs self) \<and> v \<noteq> PNone
            \<longrightarrow> map_of (to_json self) k = Some (PDict [(''value'', v)]))"
proof (intro conjI impI)
  show "map_of (to_json self) ''id'' = Some (PStr (entity_id self))"
    by (simp add: to_json_def)
next
  show "map_of (to_json self) ''type'' = Some (PStr (entity_type self))"
    by (simp add: to_json_def)
next
  assume "(k, Plain PNone) \<in> set (entity_attrs self)"
  from map_of_dump_fields [OF assms(1) this]
  have "k \<notin> fst ` set (dump_fields (entity_attrs self))"
    by (simp add: map_of_eq_None_iff)
  with assms(2,3) show "k \<notin> fst ` set (to_json self)"
    by (simp add: to_json_def)
next
  assume a: "(k, Plain v) \<in> set (entity_attrs self) \<and> v \<noteq> PNone"
  then have "(k, Plain v) \<in> set (entity_attrs self)" by simp
  from map_of_dump_fields [OF assms(1) this] a assms(2,3)
  show "map_of (to_json self) k = Some v"
    by (simp add: to_json_def)
next
  assume a: "(k, Wrapped \<lparr>attr_type = Some t, attr_value = v\<rparr>) \<in> set (entity_attrs self) \<and> v \<noteq> PNone"
  then have "(k, Wrapped \<lparr>attr_type = Some t, attr_value = v\<rparr>) \<in> set (entity_attrs self)"
    by simp
  from map_of_dump_fields [OF assms(1) this] a assms(2,3)
  show "map_of (to_json self) k = Some (PDict [(''type'', PStr t), (''value'', v)])"
    by (simp add: to_json_def dump_attr_def)
next
  assume a: "(k, Wrapped \<lparr>attr_type = None, attr_value = v\<rparr>) \<in> set (entity_attrs self) \<and> v \<noteq> PNone"
  then have "(k, Wrapped \<lparr>attr_type = None, attr_value = v\<rparr>) \<in> set (entity_attrs self)"
    by simp
  from map_of_dump_fields [OF assms(1) this] a assms(2,3)
  show "map_of (to_json self) k = Some (PDict [(''value'', v)])"
    by (simp add: to_json_def dump_attr_def)
qed

theorem to_json_exclude_none_witness:
  "map_of (to_json bot_entity) ''id'' = Some (PStr ''urn:ngsi-ld:Bot:1'')
   \<and> map_of (to_json bot_entity) ''type'' = Some (PStr ''Bot'')
   \<and> ''direction'' \<notin> fst ` set (to_json bot_entity)
   \<and> map_of (to_json bot_entity) ''name'' = Some (PStr ''r2'')
   \<and> map_of (to_json bot_entity) ''speed''
       = Some (PDict [(''type'', PStr ''Number''), (''value'', PFloat 1.5)])"
proof -
  have d: "distinct (map fst (entity_attrs bot_entity))"
    by (simp add: bot_entity_def)
  have "''direction'' \<notin> fst ` set (to_json bot_entity)"
    using to_json_exclude_none [OF d, where k = "''direction''"] by (simp add: bot_entity_def)
  moreover have "map_of (to_json bot_entity) ''name'' = Some (PStr ''r2'')"
    using to_json_exclude_none [OF d, where k = "''name''" and v = "PStr ''r2''"] by (simp add: bot_entity_def)
  moreover have "map_of (to_json bot_entity) ''speed''
       = Some (PDict [(''type'', PStr ''Number''), (''value'', PFloat 1.5)])"
    using to_json_exclude_none
      [OF d, where k = "''speed''" and t = "''Number''" and v = "PFloat 1.5"]
    by (simp add: bot_entity_def)
  moreover have "map_of (to_json bot_entity) ''id'' = Some (PStr ''urn:ngsi-ld:Bot:1'')"
    and "map_of (to_json bot_entity) ''type'' = Some (PStr ''Bot'')"
    using to_json_exclude_none [OF d, where k = "''speed''"] by (simp_all add: bot_entity_def)
  ultimately show ?thesis by simp
qed

subsection \<open>The identifier\<close>

text \<open>
  C9. \<^verbatim>\<open>set_id_with_type_prefix\<close> returns the entity with its id replaced by
  \<^verbatim>\<open>urn:ngsi-ld:\<close>, the type, a colon and the suffix, whatever the id was; the type and
  the attributes are as before. For the type \<^verbatim>\<open>Sensor\<close> and the suffix \<^verbatim>\<open>xyz\<close> the id is
  \<^verbatim>\<open>urn:ngsi-ld:Sensor:xyz\<close>.
\<close>

theorem set_id_with_type_prefix_urn:
  "set_id_with_type_prefix self unique_suffix
     = self\<lparr>entity_id := ''urn:ngsi-ld:'' @ entity_type self @ '':'' @ unique_suffix\<rparr>
   \<and> entity_id (set_id_with_type_prefix
                  \<lparr>entity_id = i, entity_type = ''Sensor'', entity_attrs = xs\<rparr> ''xyz'')
       = ''urn:ngsi-ld:Sensor:xyz''"
  by (simp add: set_id_with_type_prefix_def ld_urn_def)

section \<open>Properties of the series builder\<close>

subsection \<open>Dictionaries\<close>

lemma map_of_dict_set: "map_of (dict_set d k v) = (map_of d)(k \<mapsto> v)"
  by (induction d k v rule: dict_set.induct) auto

lemma keys_dict_set: "fst ` set (dict_set d k v) = insert k (fst ` set d)"
  by (induction d k v rule: dict_set.induct) auto

lemma distinct_dict_set: "distinct (map fst d) \<Longrightarrow> distinct (map fst (dict_set d k v))"
  by (induction d k v rule: dict_set.induct) (auto simp: keys_dict_set)

lemma distinct_dict_update: "distinct (map fst d) \<Longrightarrow> distinct (map fst (dict_update d e))"
  by (induction d e rule: dict_update.induct) (auto simp: distinct_dict_set)

lemma map_of_dict_update_other:
  "k \<notin> set (map fst e) \<Longrightarrow> map_of (dict_update d e) k = map_of d k"
  by (induction d e rule: dict_update.induct) (auto simp: map_of_dict_set)

lemma distinct_fold_update:
  "distinct (map fst acc) \<Longrightarrow> distinct (map fst (fold (\<lambda>d acc. dict_update acc d) ds acc))"
  by (induction ds arbitrary: acc) (auto simp: distinct_dict_update)

lemma map_of_fold_update_other:
  "\<forall>d \<in> set ds. k \<notin> set (map fst d) \<Longrightarrow>
   map_of (fold (\<lambda>d acc. dict_update acc d) ds acc) k = map_of acc k"
  by (induction ds arbitrary: acc) (auto simp: map_of_dict_update_other)

lemma filter_key_distinct:
  "distinct (map fst d) \<Longrightarrow> map_of d k = Some v \<Longrightarrow> filter (\<lambda>kv. fst kv = k) d = [(k, v)]"
proof (induction d)
  case Nil
  then show ?case by simp
next
  case (Cons p d)
  show ?case
  proof (cases "fst p = k")
    case True
    with Cons.prems have "k \<notin> set (map fst d)" by auto
    then have "filter (\<lambda>kv. fst kv = k) d = []" by (auto simp: filter_empty_conv)
    with True Cons.prems show ?thesis by (cases p) auto
  next
    case False
    with Cons show ?thesis by auto
  qed
qed

subsection \<open>The attributes of a query result\<close>

lemma to_kv_named:
  "attrName a = Some n \<Longrightarrow> n \<noteq> '''' \<Longrightarrow>
   to_kv a = [(n, case attrValues a of None \<Rightarrow> [] | Some vs \<Rightarrow> vs)]"
  by (simp add: to_kv_def)

lemma to_kv_nameless: "attrName a = None \<or> attrName a = Some '''' \<Longrightarrow> to_kv a = []"
  by (auto simp: to_kv_def)

lemma to_kv_keys: "k \<in> set (map fst (to_kv a)) \<Longrightarrow> attrName a = Some k"
  by (auto simp: to_kv_def Let_def split: option.splits if_splits)

text \<open>The merged dictionary has one item for a name, with the values of the last
  payload of that name.\<close>

lemma merge_dicts_last:
  assumes "attrName b = Some n" "n \<noteq> ''''" "\<forall>c \<in> set zs. attrName c \<noteq> Some n"
  shows "filter (\<lambda>kv. fst kv = n) (merge_dicts (map to_kv (xs @ b # zs)))
           = [(n, case attrValues b of None \<Rightarrow> [] | Some vs \<Rightarrow> vs)]"
proof -
  let ?f = "\<lambda>d acc. dict_update acc d"
  let ?v = "case attrValues b of None \<Rightarrow> [] | Some vs \<Rightarrow> vs"
  let ?acc = "dict_set (fold ?f (map to_kv xs) []) n ?v"
  have m: "merge_dicts (map to_kv (xs @ b # zs)) = fold ?f (map to_kv zs) ?acc"
    using assms(1,2) by (simp add: merge_dicts_def to_kv_named)
  have "\<forall>d \<in> set (map to_kv zs). n \<notin> set (map fst d)"
    using assms(3) to_kv_keys by fastforce
  then have "map_of (fold ?f (map to_kv zs) ?acc) n = map_of ?acc n"
    by (rule map_of_fold_update_other)
  then have v: "map_of (merge_dicts (map to_kv (xs @ b # zs))) n = Some ?v"
    unfolding m by (simp add: map_of_dict_set)
  have "distinct (map fst (merge_dicts (map to_kv (xs @ b # zs))))"
    unfolding merge_dicts_def by (rule distinct_fold_update) simp
  from filter_key_distinct [OF this v] show ?thesis .
qed

subsection \<open>The fields of the class\<close>

lemma model_fields_Inr:
  "model_fields ds = Inr fs \<Longrightarrow> fs = filter (\<lambda>kv. \<not> startswith_underscore (fst kv)) ds"
  by (induction ds arbitrary: fs rule: model_fields.induct)
     (auto split: if_splits sum.splits)

lemma series_attr_fields:
  "from_quantumleap_format parse reserved q = Inr s \<Longrightarrow>
   attr_fields s
     = filter (\<lambda>kv. \<not> startswith_underscore (fst kv))
         (merge_dicts (map to_kv (case attributes q of None \<Rightarrow> [] | Some xs \<Rightarrow> xs)))"
  by (auto simp: from_quantumleap_format_def Let_def create_model_def new_series_def
           split: sum.splits if_splits option.splits list.splits dest: model_fields_Inr)

text \<open>A name that starts with an underscore is no field of the series, whatever the
  query result has under it.\<close>

lemma underscore_no_field:
  assumes "startswith_underscore n" and "from_quantumleap_format parse reserved q = Inr s"
  shows "n \<notin> fst ` set (attr_fields s)"
  using assms(1) unfolding series_attr_fields [OF assms(2)] by auto

text \<open>
  Last write wins, for the names that become fields. When two elements of
  \<^verbatim>\<open>attributes\<close> have the same name, not empty and not starting with an underscore, and
  no element after the second has that name, a series the builder returns has exactly
  one field of that name, and its value is the array of the second element (the empty
  array when the element has no \<^verbatim>\<open>values\<close>).
\<close>

lemma from_quantumleap_format_last_wins:
  assumes "attributes q = Some (xs @ a # ys @ b # zs)"
    and "attrName a = Some n" and "attrName b = Some n" and "n \<noteq> ''''"
    and "\<not> startswith_underscore n"
    and "\<forall>c \<in> set zs. attrName c \<noteq> Some n"
    and "from_quantumleap_format parse reserved q = Inr s"
  shows "filter (\<lambda>kv. fst kv = n) (attr_fields s)
           = [(n, case attrValues b of None \<Rightarrow> [] | Some vs \<Rightarrow> vs)]"
proof -
  let ?m = "merge_dicts (map to_kv ((xs @ a # ys) @ b # zs))"
  have "attr_fields s = filter (\<lambda>kv. \<not> startswith_underscore (fst kv)) ?m"
    using series_attr_fields [OF assms(7)] assms(1) by simp
  then have "filter (\<lambda>kv. fst kv = n) (attr_fields s)
               = filter (\<lambda>kv. fst kv = n \<and> \<not> startswith_underscore (fst kv)) ?m"
    by (simp add: conj_commute)
  also have "\<dots> = filter (\<lambda>kv. fst kv = n) ?m"
    using assms(5) by (intro filter_cong) auto
  finally show ?thesis
    using merge_dicts_last [OF assms(3,4,6), of "xs @ a # ys"] by simp
qed

text \<open>The class made for an ordinary name, a name with an underscore, a name the base
  class has as an attribute, \<^verbatim>\<open>index\<close> and \<^verbatim>\<open>__base__\<close>.\<close>

lemma create_model_examples:
  "create_model reserved ''S'' [(''temp'', [PInt 1])]
     = Inr \<lparr>dm_name = ''S'', dm_defaults = [(''temp'', [PInt 1])]\<rparr>"
  "create_model (\<lambda>n. None) ''S'' [(''_x'', [PInt 1]), (''temp'', [PInt 2])]
     = Inr \<lparr>dm_name = ''S'', dm_defaults = [(''temp'', [PInt 2])]\<rparr>"
  "create_model (\<lambda>n. None) ''S'' [(''temp'', [PInt 1]), (''dict'', [PInt 2])] = Inl NameError"
  "create_model (\<lambda>n. None) ''S'' [(''temp'', [PInt 1]), (''index'', [PInt 2])] = Inl TypeError"
  "create_model reserved ''S'' [(''__base__'', [PInt 1])] = Inl TypeError"
  by (simp_all add: create_model_def startswith_underscore_def base_attributes_def)

subsection \<open>The time index\<close>

lemma parse_index_fails:
  "\<exists>t \<in> set ts. parse t = None \<Longrightarrow> parse_index parse ts = Inl ValueError"
proof (induction ts)
  case Nil
  then show ?case by simp
next
  case (Cons t ts)
  show ?case
  proof (cases "parse t")
    case None
    then show ?thesis by simp
  next
    case (Some d)
    with Cons.prems have "\<exists>u \<in> set ts. parse u = None" by auto
    with Cons.IH Some show ?thesis by simp
  qed
qed

lemma parse_isoformat_date_new_year: "parse_isoformat_date ''2020-01-01'' = Some (2020, 1, 1)"
  by code_simp

lemma parse_isoformat_time_midnight: "parse_isoformat_time ''00:00:00'' = Some ((0, 0, 0, 0), None)"
  by code_simp

lemma parse_isoformat_time_one: "parse_isoformat_time ''01:00:00'' = Some ((1, 0, 0, 0), None)"
  by code_simp

lemma check_date_fields_new_year: "check_date_fields 2020 (Suc 0) (Suc 0)"
  by (simp add: check_date_fields_def days_in_month_def is_leap_def)

lemma fromisoformat_midnight: "fromisoformat ''2020-01-01T00:00:00'' = Some (new_year 0)"
  by (simp add: fromisoformat_def parse_isoformat_date_new_year parse_isoformat_time_midnight
      check_date_fields_new_year check_time_fields_def check_utcoffset_def new_year_def)

lemma fromisoformat_one: "fromisoformat ''2020-01-01T01:00:00'' = Some (new_year 1)"
  by (simp add: fromisoformat_def parse_isoformat_date_new_year parse_isoformat_time_one
      check_date_fields_new_year check_time_fields_def check_utcoffset_def new_year_def)

lemma fromisoformat_yesterday: "fromisoformat ''yesterday'' = None"
  by (simp add: fromisoformat_def parse_isoformat_date_def)

subsection \<open>The claims\<close>

text \<open>
  C1. For the query result \<open>room\<close> (entity type \<^verbatim>\<open>Room\<close>, the index
  \<^verbatim>\<open>2020-01-01T00:00:00\<close>, \<^verbatim>\<open>2020-01-01T01:00:00\<close> and the attribute \<^verbatim>\<open>temp\<close> with the values
  10 and 12) and a parser that reads the two strings as midnight and one o'clock of
  the first of January 2020, the builder returns a series whose index is these two
  timestamps, so of length 2, the second one hour (3600 seconds) after the first, and
  whose field \<^verbatim>\<open>temp\<close> is the array of 10 and 12.
\<close>

theorem from_quantumleap_format_room:
  assumes "parse ''2020-01-01T00:00:00'' = Some (new_year 0)"
    and "parse ''2020-01-01T01:00:00'' = Some (new_year 1)"
  shows "from_quantumleap_format parse reserved room
           = Inr \<lparr>model_name = ''RoomSeries'', index = [new_year 0, new_year 1],
                   attr_fields = [(''temp'', [PInt 10, PInt 12])]\<rparr>
       \<and> length [new_year 0, new_year 1] = 2
       \<and> sub_datetime (new_year 1) (new_year 0) = Inr (3600 * 1000000)"
  using assms
  by (simp add: from_quantumleap_format_def Let_def create_model_def new_series_def room_def
      to_kv_def merge_dicts_def startswith_underscore_def base_attributes_def
      sub_datetime_def toordinal_def new_year_def)

theorem from_quantumleap_format_room_witness:
  "from_quantumleap_format fromisoformat (\<lambda>n. None) room
     = Inr \<lparr>model_name = ''RoomSeries'', index = [new_year 0, new_year 1],
             attr_fields = [(''temp'', [PInt 10, PInt 12])]\<rparr>
   \<and> sub_datetime (new_year 1) (new_year 0) = Inr 3600000000"
  using from_quantumleap_format_room [OF fromisoformat_midnight fromisoformat_one]
  by simp

text \<open>
  C2. When the index of the query result has a string that the parser refuses, the
  builder fails with the \<^verbatim>\<open>ValueError\<close> of the parser and returns no series, whatever
  the other strings of the index and the rest of the query result are.
\<close>

theorem from_quantumleap_format_bad_index:
  assumes "raw_index q = Some ts" and "\<exists>t \<in> set ts. parse t = None"
  shows "from_quantumleap_format parse reserved q = Inl ValueError"
  using parse_index_fails [OF assms(2)] assms(1)
  by (simp add: from_quantumleap_format_def Let_def)

theorem from_quantumleap_format_bad_index_witness:
  "from_quantumleap_format fromisoformat (\<lambda>n. None)
     (room\<lparr>raw_index := Some [''2020-01-01T00:00:00'', ''yesterday'']\<rparr>) = Inl ValueError"
proof -
  have "\<exists>t \<in> set [''2020-01-01T00:00:00'', ''yesterday'']. fromisoformat t = None"
    by (simp add: fromisoformat_yesterday)
  then show ?thesis
    by (rule from_quantumleap_format_bad_index [rotated]) simp
qed

text \<open>
  C3. An element of \<^verbatim>\<open>attributes\<close> whose \<^verbatim>\<open>attrName\<close> is missing or empty changes
  nothing: the builder returns for the query result with the element, wherever it is
  in the list, what it returns for the query result without it, the same series or the
  same error.
\<close>

theorem from_quantumleap_format_nameless:
  assumes "attrName a = None \<or> attrName a = Some ''''"
  shows "from_quantumleap_format parse reserved (q\<lparr>attributes := Some (xs @ a # ys)\<rparr>)
           = from_quantumleap_format parse reserved (q\<lparr>attributes := Some (xs @ ys)\<rparr>)"
  using to_kv_nameless [OF assms]
  by (simp add: from_quantumleap_format_def merge_dicts_def Let_def split: sum.splits)

theorem from_quantumleap_format_nameless_witness:
  "from_quantumleap_format fromisoformat (\<lambda>n. None)
     (room\<lparr>attributes := Some [\<lparr>attrName = Some ''temp'', attrValues = Some [PInt 10, PInt 12]\<rparr>,
                               \<lparr>attrName = Some '''', attrValues = Some [PInt 1, PInt 2]\<rparr>]\<rparr>)
   = Inr \<lparr>model_name = ''RoomSeries'', index = [new_year 0, new_year 1],
           attr_fields = [(''temp'', [PInt 10, PInt 12])]\<rparr>"
  using from_quantumleap_format_nameless
    [where a = "\<lparr>attrName = Some '''', attrValues = Some [PInt 1, PInt 2]\<rparr>"
       and parse = fromisoformat and reserved = "\<lambda>n. None" and q = room and ys = "[]"
       and xs = "[\<lparr>attrName = Some ''temp'', attrValues = Some [PInt 10, PInt 12]\<rparr>]"]
  by (simp add: from_quantumleap_format_def Let_def create_model_def new_series_def room_def
      to_kv_def merge_dicts_def startswith_underscore_def base_attributes_def
      fromisoformat_midnight fromisoformat_one)

text \<open>
  C4, where the code departs from it. The query result has two elements named
  \<^verbatim>\<open>_x\<close>, with the arrays 1, 2 and 3, 4. The claim, and the docstring of
  \<^verbatim>\<open>from_quantumleap_format\<close> (``it will have a field for each returned attribute array
  and the field name will be the same as the attribute name''), have the series hold
  one field \<^verbatim>\<open>_x\<close> with the array 3, 4. The builder returns a series with no field but
  the index: the name starts with an underscore, and pydantic ignores it.
\<close>

theorem from_quantumleap_format_underscore:
  "from_quantumleap_format fromisoformat (\<lambda>n. None)
     (room\<lparr>attributes := Some [\<lparr>attrName = Some ''_x'', attrValues = Some [PInt 1, PInt 2]\<rparr>,
                               \<lparr>attrName = Some ''_x'', attrValues = Some [PInt 3, PInt 4]\<rparr>]\<rparr>)
     = Inr \<lparr>model_name = ''RoomSeries'', index = [new_year 0, new_year 1], attr_fields = []\<rparr>"
  by (simp add: from_quantumleap_format_def Let_def create_model_def new_series_def room_def
      to_kv_def merge_dicts_def startswith_underscore_def
      fromisoformat_midnight fromisoformat_one)

text \<open>
  C10. A key missing from the query result is its default: no \<^verbatim>\<open>index\<close> is the empty
  index, no \<^verbatim>\<open>attributes\<close> the empty list, no \<^verbatim>\<open>entityType\<close> the empty name. The
  empty query result gives the series named \<^verbatim>\<open>Series\<close> with an empty index and no
  attribute field, and no error.
\<close>

theorem from_quantumleap_format_defaults:
  "from_quantumleap_format parse reserved (q\<lparr>raw_index := None\<rparr>)
     = from_quantumleap_format parse reserved (q\<lparr>raw_index := Some []\<rparr>)
   \<and> from_quantumleap_format parse reserved (q\<lparr>attributes := None\<rparr>)
       = from_quantumleap_format parse reserved (q\<lparr>attributes := Some []\<rparr>)
   \<and> from_quantumleap_format parse reserved (q\<lparr>entityType := None\<rparr>)
       = from_quantumleap_format parse reserved (q\<lparr>entityType := Some ''''\<rparr>)
   \<and> from_quantumleap_format parse reserved \<lparr>entityType = None, raw_index = None, attributes = None\<rparr>
       = Inr \<lparr>model_name = ''Series'', index = [], attr_fields = []\<rparr>"
  by (simp add: from_quantumleap_format_def merge_dicts_def Let_def create_model_def
      new_series_def split: sum.splits)

end
